theory Spec2Isabelle
  imports Complex_Main "HOL-Library.Sublist"
begin

section \<open>Python values, exceptions and dictionaries\<close>

text \<open>
  The backend is Python. A value of type \<open>Any\<close> is a \<open>pyval\<close>; a \<open>str\<close> is a
  \<open>string\<close>; a \<open>float\<close> is a \<open>real\<close> (only the literals of the source and
  differences of clock readings occur, the rounding of float arithmetic is not modelled).
  A \<open>dict\<close> is an association list with distinct keys in insertion order:
  \<open>d[k] = v\<close> overwrites in place or appends, \<open>del d[k]\<close> removes the entry.
\<close>

datatype pyval =
    PNone
  | PBool bool
  | PInt int
  | PFloat real
  | PStr string
  | PList "pyval list"
  | PDict "(string \<times> pyval) list"

text \<open>Truth value of a Python object, as tested by \<open>if x:\<close>.\<close>

fun truthy :: "pyval \<Rightarrow> bool" where
  "truthy PNone = False"
| "truthy (PBool b) = b"
| "truthy (PInt i) = (i \<noteq> 0)"
| "truthy (PFloat r) = (r \<noteq> 0)"
| "truthy (PStr s) = (s \<noteq> [])"
| "truthy (PList xs) = (xs \<noteq> [])"
| "truthy (PDict d) = (d \<noteq> [])"

text \<open>An exception object: \<open>type(e).__name__\<close> and \<open>str(e)\<close>.\<close>

datatype exn = Exn (exn_type: string) (exn_str: string)

type_synonym ('k, 'v) dict = "('k \<times> 'v) list"

definition dict_get :: "('k, 'v) dict \<Rightarrow> 'k \<Rightarrow> 'v option" where
  "dict_get d k = map_of d k"

definition dict_in :: "'k \<Rightarrow> ('k, 'v) dict \<Rightarrow> bool" where
  "dict_in k d = (dict_get d k \<noteq> None)"

fun dict_set :: "'k \<Rightarrow> 'v \<Rightarrow> ('k, 'v) dict \<Rightarrow> ('k, 'v) dict" where
  "dict_set k v [] = [(k, v)]"
| "dict_set k v (p # ps) = (if fst p = k then (k, v) # ps else p # dict_set k v ps)"

definition dict_del :: "'k \<Rightarrow> ('k, 'v) dict \<Rightarrow> ('k, 'v) dict" where
  "dict_del k d = filter (\<lambda>p. fst p \<noteq> k) d"

definition dict_keys :: "('k, 'v) dict \<Rightarrow> 'k list" where
  "dict_keys d = map fst d"

text \<open>\<open>d.get(k, default)\<close> on a \<open>Dict[str, Any]\<close>.\<close>

definition py_get :: "(string, pyval) dict \<Rightarrow> string \<Rightarrow> pyval \<Rightarrow> pyval" where
  "py_get d k dflt = (case dict_get d k of None \<Rightarrow> dflt | Some v \<Rightarrow> v)"

text \<open>
  The parameter bundle handed to a tool is whatever the caller supplies (\<open>Any\<close>):
  a dict for every well-formed request.
\<close>

type_synonym params = pyval

text \<open>A string in single quotes, and the newline, as the f-strings of the source need them.\<close>

definition quoted :: "string \<Rightarrow> string" where
  "quoted s = [CHR 0x27] @ s @ [CHR 0x27]"

definition newline :: string where
  "newline = [CHR 0x0A]"

text \<open>\<open>str(x)\<close> of an \<open>Optional[str]\<close> inside an f-string.\<close>

definition str_opt :: "string option \<Rightarrow> string" where
  "str_opt x = (case x of None \<Rightarrow> ''None'' | Some s \<Rightarrow> s)"

text \<open>\<open>sep.join(xs)\<close>.\<close>

fun join :: "string \<Rightarrow> string list \<Rightarrow> string" where
  "join sep [] = []"
| "join sep [x] = x"
| "join sep (x # y # ys) = x @ sep @ join sep (y # ys)"

text \<open>
  \<open>s.lower()\<close>: the letters A to Z are mapped to a to z. Strings are byte strings here;
  the bytes of a character outside ASCII are left alone and never equal a keyword's byte.
\<close>

definition lower_char :: "char \<Rightarrow> char" where
  "lower_char c =
    (case map_of (zip ''ABCDEFGHIJKLMNOPQRSTUVWXYZ'' ''abcdefghijklmnopqrstuvwxyz'') c of
       Some l \<Rightarrow> l
     | None \<Rightarrow> c)"

definition lower :: "string \<Rightarrow> string" where
  "lower s = map lower_char s"

text \<open>\<open>word in s\<close> on strings: \<open>word\<close> occurs in \<open>s\<close> as a contiguous substring.\<close>

fun starts_with :: "string \<Rightarrow> string \<Rightarrow> bool" where
  "starts_with [] s = True"
| "starts_with (c # cs) [] = False"
| "starts_with (c # cs) (d # ds) = (c = d \<and> starts_with cs ds)"

fun str_in :: "string \<Rightarrow> string \<Rightarrow> bool" where
  "str_in word [] = (word = [])"
| "str_in word (c # cs) = (starts_with word (c # cs) \<or> str_in word cs)"

section \<open>Schemas (models/schemas.py)\<close>

datatype ToolStatus = PENDING | RUNNING | COMPLETED | FAILED

datatype ContentType = TEXT | CODE | IMAGE | DATA | ERROR

text \<open>\<open>MessageType.ERROR\<close> is \<open>ERROR_MESSAGE\<close> here, apart from \<open>ContentType.ERROR\<close>.\<close>

datatype MessageType = USER | ASSISTANT | SYSTEM | TOOL_EXECUTION | ERROR_MESSAGE

record ToolResult =
  tool_name :: string
  status :: ToolStatus
  result :: "(string, pyval) dict option"
  error :: "string option"
  execution_time :: "real option"

record MessageContent =
  mc_type :: ContentType
  mc_content :: pyval
  mc_metadata :: "(string, pyval) dict option"

record ChatMessage =
  cm_id :: string
  cm_type :: MessageType
  cm_content :: "MessageContent list"
  cm_timestamp :: real
  cm_user_id :: "string option"
  cm_session_id :: "string option"
  cm_tool_results :: "ToolResult list option"

record UserQuery =
  uq_message :: string
  uq_session_id :: "string option"
  uq_user_id :: "string option"
  uq_context :: "pyval option"

record AgentResponse =
  message_id :: string
  response_type :: MessageType
  ar_content :: "MessageContent list"
  tools_used :: "string list option"
  processing_time :: "real option"
  ar_session_id :: "string option"

record IntentClassification =
  intent :: string
  confidence :: real
  suggested_tools :: "string list"
  parameters :: "(string, pyval) dict"
  reasoning :: "string option"

text \<open>
  Constructing a \<open>MessageContent\<close> validates \<open>content: Union[str, Dict[str, Any]]\<close>
  (pydantic 2, no coercion of other values into \<open>str\<close>): anything but a string or a
  dict raises a ValidationError.
\<close>

definition validation_error :: exn where
  "validation_error = Exn ''ValidationError'' ''validation error for MessageContent''"

fun MessageContent_new :: "ContentType \<Rightarrow> pyval \<Rightarrow> (string, pyval) dict \<Rightarrow> exn + MessageContent" where
  "MessageContent_new ty (PStr s) md = Inr \<lparr>mc_type = ty, mc_content = PStr s, mc_metadata = Some md\<rparr>"
| "MessageContent_new ty (PDict d) md = Inr \<lparr>mc_type = ty, mc_content = PDict d, mc_metadata = Some md\<rparr>"
| "MessageContent_new ty _ md = Inl validation_error"

section \<open>The world outside the program\<close>

text \<open>
  \<open>time.time()\<close>, \<open>datetime.now()\<close> and \<open>uuid.uuid4()\<close> read the outside world. The
  world carries the sequence of clock readings and of fresh identifiers still to come,
  and a log of the observable events (a progress notification handed to a callback, a
  call of a tool's \<open>execute\<close>), which the source does not keep: it is there to state
  what was invoked.
\<close>

datatype event =
    Progress string real
  | ExecuteCalled string params

record world =
  time_src :: "nat \<Rightarrow> real"
  time_idx :: nat
  uuid_src :: "nat \<Rightarrow> string"
  uuid_idx :: nat
  trace :: "event list"

definition time_time :: "world \<Rightarrow> real \<times> world" where
  "time_time w = (time_src w (time_idx w), w\<lparr>time_idx := Suc (time_idx w)\<rparr>)"

definition uuid4 :: "world \<Rightarrow> string \<times> world" where
  "uuid4 w = (uuid_src w (uuid_idx w), w\<lparr>uuid_idx := Suc (uuid_idx w)\<rparr>)"

text \<open>
  A progress callback is handed a message and a fraction; it either delivers the
  notification (\<open>None\<close>) or raises (\<open>Some e\<close>).
\<close>

type_synonym callback = "string \<Rightarrow> real \<Rightarrow> exn option"

text \<open>
  Awaiting a callback: the notification is logged and the callback either returns or
  raises. Nothing happens when no callback is given.
\<close>

definition call_callback :: "callback option \<Rightarrow> string \<Rightarrow> real \<Rightarrow> world \<Rightarrow> exn option \<times> world" where
  "call_callback cb msg p w =
    (case cb of
       None \<Rightarrow> (None, w)
     | Some f \<Rightarrow> (f msg p, w\<lparr>trace := trace w @ [Progress msg p]\<rparr>))"

section \<open>Tools (tools/base\_tool.py)\<close>

text \<open>
  A tool object: the attributes set by \<open>BaseTool.__init__\<close> and the two abstract methods
  that execution goes through. \<open>validate_parameters\<close> returns a bool or raises; \<open>execute\<close> is
  given the attached callback (it may report progress itself), runs in the world and
  returns a ToolResult or raises.
\<close>

record BaseTool =
  name :: string
  description :: string
  category :: string
  enabled :: bool
  progress_callback :: "callback option"
  validate_parameters :: "params \<Rightarrow> exn + bool"
  execute :: "callback option \<Rightarrow> params \<Rightarrow> world \<Rightarrow> (exn + ToolResult) \<times> world"

definition is_enabled :: "BaseTool \<Rightarrow> bool" where
  "is_enabled tool = enabled tool"

definition set_progress_callback :: "callback \<Rightarrow> BaseTool \<Rightarrow> BaseTool" where
  "set_progress_callback cb tool = tool\<lparr>progress_callback := Some cb\<rparr>"

text \<open>\<open>BaseTool._report_progress\<close>.\<close>

definition report_progress :: "BaseTool \<Rightarrow> string \<Rightarrow> real \<Rightarrow> world \<Rightarrow> exn option \<times> world" where
  "report_progress tool msg p w = call_callback (progress_callback tool) msg p w"

text \<open>
  The \<open>except Exception\<close> handler of \<open>_safe_execute\<close>: it reports the failure, which
  may raise in turn (then the exception leaves \<open>_safe_execute\<close>), and returns a failed
  result.
\<close>

definition safe_execute_except :: "BaseTool \<Rightarrow> real \<Rightarrow> exn \<Rightarrow> world \<Rightarrow> (exn + ToolResult) \<times> world" where
  "safe_execute_except tool start_time e w =
    (let (now, w1) = time_time w;
         exec_time = now - start_time;
         error_message = ''Tool execution failed: '' @ exn_str e
     in case report_progress tool (name tool @ '' failed: '' @ exn_str e) 0 w1 of
          (Some e2, w2) \<Rightarrow> (Inl e2, w2)
        | (None, w2) \<Rightarrow>
            (Inr \<lparr>tool_name = name tool, status = FAILED, result = None,
                  error = Some error_message, execution_time = Some exec_time\<rparr>, w2))"

text \<open>
  \<open>BaseTool._safe_execute\<close>. The call of \<open>execute\<close> is logged in the trace just
  before it is made.
\<close>

definition safe_execute :: "BaseTool \<Rightarrow> params \<Rightarrow> world \<Rightarrow> (exn + ToolResult) \<times> world" where
  "safe_execute tool ps w =
    (let (start_time, w0) = time_time w
     in case validate_parameters tool ps of
          Inl e \<Rightarrow> safe_execute_except tool start_time e w0
        | Inr False \<Rightarrow>
            (let (now, w1) = time_time w0
             in (Inr \<lparr>tool_name = name tool, status = FAILED, result = None,
                      error = Some ''Invalid parameters provided'',
                      execution_time = Some (now - start_time)\<rparr>, w1))
        | Inr True \<Rightarrow>
            (case report_progress tool (''Starting '' @ name tool @ ''...'') 0 w0 of
               (Some e, w1) \<Rightarrow> safe_execute_except tool start_time e w1
             | (None, w1) \<Rightarrow>
                 (case execute tool (progress_callback tool) ps
                         (w1\<lparr>trace := trace w1 @ [ExecuteCalled (name tool) ps]\<rparr>) of
                    (Inl e, w2) \<Rightarrow> safe_execute_except tool start_time e w2
                  | (Inr r, w2) \<Rightarrow>
                      (let (now, w3) = time_time w2;
                           r1 = r\<lparr>execution_time := Some (now - start_time)\<rparr>
                       in if status r1 = COMPLETED
                          then (case report_progress tool (name tool @ '' completed successfully'') 1 w3 of
                                  (Some e, w4) \<Rightarrow> safe_execute_except tool start_time e w4
                                | (None, w4) \<Rightarrow> (Inr r1, w4))
                          else (Inr r1, w3)))))"

section \<open>The text-generation tool (tools/text\_generation\_tool.py)\<close>

text \<open>The defaults of core/config.py.\<close>

definition OPENAI_MAX_TOKENS :: int where
  "OPENAI_MAX_TOKENS = 2000"

definition OPENAI_TEMPERATURE :: real where
  "OPENAI_TEMPERATURE = 0.7"

definition OPENAI_MODEL :: string where
  "OPENAI_MODEL = ''gpt-3.5-turbo''"

text \<open>
  The hosted generation backend: given model, prompt, max\_tokens and temperature, the
  call \<open>client.chat.completions.create\<close> and the reading of its first choice either
  raise or give the message content, the token usage and the finish reason.
\<close>

record completion =
  message_content :: "string option"
  total_tokens :: "int option"
  finish_reason :: string

type_synonym openai_client = "pyval \<Rightarrow> pyval \<Rightarrow> pyval \<Rightarrow> pyval \<Rightarrow> exn + completion"

definition attribute_error :: exn where
  "attribute_error = Exn ''AttributeError'' ''object has no attribute get''"

text \<open>\<open>isinstance(x, int)\<close> (a bool is an int) and \<open>isinstance(x, (int, float))\<close>.\<close>

fun as_int :: "pyval \<Rightarrow> int option" where
  "as_int (PInt i) = Some i"
| "as_int (PBool b) = Some (if b then 1 else 0)"
| "as_int _ = None"

fun as_number :: "pyval \<Rightarrow> real option" where
  "as_number (PInt i) = Some (of_int i)"
| "as_number (PBool b) = Some (if b then 1 else 0)"
| "as_number (PFloat r) = Some r"
| "as_number _ = None"

definition text_validate_dict :: "(string, pyval) dict \<Rightarrow> bool" where
  "text_validate_dict d =
    (if \<not> truthy (py_get d ''prompt'' PNone) then False
     else let max_tokens = py_get d ''max_tokens'' PNone in
       if max_tokens \<noteq> PNone \<and>
          (case as_int max_tokens of None \<Rightarrow> True | Some i \<Rightarrow> i < 1 \<or> i > 4000) then False
       else let temperature = py_get d ''temperature'' PNone in
         if temperature \<noteq> PNone \<and>
            (case as_number temperature of None \<Rightarrow> True | Some t \<Rightarrow> t < 0 \<or> t > 1) then False
         else let model = py_get d ''model'' PNone in
           if model \<noteq> PNone \<and>
              model \<notin> set [PStr ''gpt-3.5-turbo'', PStr ''gpt-4'', PStr ''gpt-4-turbo-preview'']
           then False
           else True)"

text \<open>\<open>parameters.get\<close> raises AttributeError on a bundle that is not a dict.\<close>

fun text_validate_parameters :: "params \<Rightarrow> exn + bool" where
  "text_validate_parameters (PDict d) = Inr (text_validate_dict d)"
| "text_validate_parameters _ = Inl attribute_error"

definition text_failed :: "exn \<Rightarrow> ToolResult" where
  "text_failed e =
    \<lparr>tool_name = ''text_generation'', status = FAILED, result = None,
     error = Some (''Text generation failed: '' @ exn_str e), execution_time = None\<rparr>"

definition opt_str :: "string option \<Rightarrow> pyval" where
  "opt_str x = (case x of None \<Rightarrow> PNone | Some s \<Rightarrow> PStr s)"

definition opt_int :: "int option \<Rightarrow> pyval" where
  "opt_int x = (case x of None \<Rightarrow> PNone | Some i \<Rightarrow> PInt i)"

definition opt_float :: "real option \<Rightarrow> pyval" where
  "opt_float x = (case x of None \<Rightarrow> PNone | Some r \<Rightarrow> PFloat r)"

text \<open>
  \<open>TextGenerationTool.execute\<close>: everything after the client check runs inside
  \<open>try\<close>, so an exception of the parameter lookup, of a progress report or of the
  backend becomes a failed result.
\<close>

definition text_execute :: "openai_client option \<Rightarrow> callback option \<Rightarrow> params \<Rightarrow> world \<Rightarrow> (exn + ToolResult) \<times> world" where
  "text_execute client cb ps w =
    (case client of
       None \<Rightarrow>
         (Inr \<lparr>tool_name = ''text_generation'', status = FAILED, result = None,
               error = Some ''OpenAI client not initialized - check API key'',
               execution_time = None\<rparr>, w)
     | Some create \<Rightarrow>
         (case ps of
            PDict d \<Rightarrow>
              (let prompt = py_get d ''prompt'' (PStr '''');
                   max_tokens = py_get d ''max_tokens'' (PInt OPENAI_MAX_TOKENS);
                   temperature = py_get d ''temperature'' (PFloat OPENAI_TEMPERATURE);
                   model = py_get d ''model'' (PStr OPENAI_MODEL)
               in case call_callback cb ''Generating text response...'' 0.3 w of
                    (Some e, w1) \<Rightarrow> (Inr (text_failed e), w1)
                  | (None, w1) \<Rightarrow>
                      (case create model prompt max_tokens temperature of
                         Inl e \<Rightarrow> (Inr (text_failed e), w1)
                       | Inr response \<Rightarrow>
                           (case call_callback cb ''Processing response...'' 0.8 w1 of
                              (Some e, w2) \<Rightarrow> (Inr (text_failed e), w2)
                            | (None, w2) \<Rightarrow>
                                (Inr \<lparr>tool_name = ''text_generation'', status = COMPLETED,
                                      result = Some
                                        [(''generated_text'', opt_str (message_content response)),
                                         (''model_used'', model),
                                         (''tokens_used'', opt_int (total_tokens response)),
                                         (''finish_reason'', PStr (finish_reason response))],
                                      error = None, execution_time = None\<rparr>, w2))))
          | _ \<Rightarrow> (Inr (text_failed attribute_error), w)))"

text \<open>
  \<open>TextGenerationTool.__init__\<close>: without an API key there is no client and the tool
  starts disabled.
\<close>

definition TextGenerationTool :: "openai_client option \<Rightarrow> BaseTool" where
  "TextGenerationTool client =
    \<lparr>name = ''text_generation'',
     description = ''Generate text responses using AI language models'',
     category = ''ai'',
     enabled = (client \<noteq> None),
     progress_callback = None,
     validate_parameters = text_validate_parameters,
     execute = text_execute client\<rparr>"

section \<open>Tool registry (agents/tool\_registry.py)\<close>

record ToolRegistry =
  tools :: "(string, BaseTool) dict"
  tool_categories :: "(string, string list) dict"

text \<open>
  \<open>register_tool\<close>: nothing in the body raises on a tool object, so the \<open>except\<close>
  branch is dead and the call returns \<open>True\<close>.
\<close>

definition register_tool :: "BaseTool \<Rightarrow> ToolRegistry \<Rightarrow> bool \<times> ToolRegistry" where
  "register_tool tool reg =
    (let tools1 = dict_set (name tool) tool (tools reg);
         cats1 = (if \<not> dict_in (category tool) (tool_categories reg)
                  then dict_set (category tool) [] (tool_categories reg)
                  else tool_categories reg);
         names = the (dict_get cats1 (category tool));
         cats2 = (if name tool \<notin> set names
                  then dict_set (category tool) (names @ [name tool]) cats1
                  else cats1)
     in (True, reg\<lparr>tools := tools1, tool_categories := cats2\<rparr>))"

definition unregister_tool :: "string \<Rightarrow> ToolRegistry \<Rightarrow> bool \<times> ToolRegistry" where
  "unregister_tool tn reg =
    (case dict_get (tools reg) tn of
       None \<Rightarrow> (False, reg)
     | Some tool \<Rightarrow>
        (let cat = category tool;
             tools1 = dict_del tn (tools reg);
             cats2 =
               (case dict_get (tool_categories reg) cat of
                  None \<Rightarrow> tool_categories reg
                | Some names \<Rightarrow>
                   (let names1 = (if tn \<in> set names then remove1 tn names else names);
                        cats1 = dict_set cat names1 (tool_categories reg)
                    in if names1 = [] then dict_del cat cats1 else cats1))
         in (True, reg\<lparr>tools := tools1, tool_categories := cats2\<rparr>)))"

definition get_tool :: "string \<Rightarrow> ToolRegistry \<Rightarrow> BaseTool option" where
  "get_tool tn reg = dict_get (tools reg) tn"

definition get_tools_by_category :: "string \<Rightarrow> ToolRegistry \<Rightarrow> BaseTool list" where
  "get_tools_by_category cat reg =
    (case dict_get (tool_categories reg) cat of
       None \<Rightarrow> []
     | Some names \<Rightarrow>
         concat (map (\<lambda>tn. case dict_get (tools reg) tn of
                             None \<Rightarrow> []
                           | Some tool \<Rightarrow> if is_enabled tool then [tool] else []) names))"

definition get_categories :: "ToolRegistry \<Rightarrow> string list" where
  "get_categories reg = dict_keys (tool_categories reg)"

definition enable_tool :: "string \<Rightarrow> ToolRegistry \<Rightarrow> bool \<times> ToolRegistry" where
  "enable_tool tn reg =
    (case get_tool tn reg of
       Some tool \<Rightarrow> (True, reg\<lparr>tools := dict_set tn (tool\<lparr>enabled := True\<rparr>) (tools reg)\<rparr>)
     | None \<Rightarrow> (False, reg))"

definition disable_tool :: "string \<Rightarrow> ToolRegistry \<Rightarrow> bool \<times> ToolRegistry" where
  "disable_tool tn reg =
    (case get_tool tn reg of
       Some tool \<Rightarrow> (True, reg\<lparr>tools := dict_set tn (tool\<lparr>enabled := False\<rparr>) (tools reg)\<rparr>)
     | None \<Rightarrow> (False, reg))"

text \<open>
  \<open>ToolRegistry.__init__\<close> starts from two empty dicts and registers the default
  text-generation tool.
\<close>

definition ToolRegistry_init :: "openai_client option \<Rightarrow> ToolRegistry" where
  "ToolRegistry_init client =
     snd (register_tool (TextGenerationTool client) \<lparr>tools = [], tool_categories = []\<rparr>)"

text \<open>The operations that change the indices or a tool's flag, and a run of them.\<close>

datatype registry_op =
    Register BaseTool
  | Unregister string
  | Enable string
  | Disable string

fun apply_op :: "ToolRegistry \<Rightarrow> registry_op \<Rightarrow> ToolRegistry" where
  "apply_op reg (Register tool) = snd (register_tool tool reg)"
| "apply_op reg (Unregister tn) = snd (unregister_tool tn reg)"
| "apply_op reg (Enable tn) = snd (enable_tool tn reg)"
| "apply_op reg (Disable tn) = snd (disable_tool tn reg)"

definition run_ops :: "registry_op list \<Rightarrow> ToolRegistry \<Rightarrow> ToolRegistry" where
  "run_ops ops reg = foldl apply_op reg ops"

text \<open>
  \<open>execute_tool\<close>: an unknown or disabled tool gives a failed result; a given callback is
  attached to the tool object (which the registry holds); then \<open>_safe_execute\<close> runs.
\<close>

definition failed_result :: "string \<Rightarrow> string \<Rightarrow> ToolResult" where
  "failed_result tn msg =
    \<lparr>tool_name = tn, status = FAILED, result = None, error = Some msg, execution_time = None\<rparr>"

definition execute_tool :: "string \<Rightarrow> params \<Rightarrow> callback option \<Rightarrow> ToolRegistry \<Rightarrow> world \<Rightarrow> (exn + ToolResult) \<times> ToolRegistry \<times> world" where
  "execute_tool tn ps cb reg w =
    (case get_tool tn reg of
       None \<Rightarrow> (Inr (failed_result tn (''Tool '' @ quoted tn @ '' not found'')), reg, w)
     | Some tool \<Rightarrow>
         if \<not> is_enabled tool
         then (Inr (failed_result tn (''Tool '' @ quoted tn @ '' is disabled'')), reg, w)
         else
           (let tool1 = (case cb of Some f \<Rightarrow> set_progress_callback f tool | None \<Rightarrow> tool);
                reg1 = (case cb of Some f \<Rightarrow> reg\<lparr>tools := dict_set tn tool1 (tools reg)\<rparr> | None \<Rightarrow> reg)
            in case safe_execute tool1 ps w of (r, w1) \<Rightarrow> (r, reg1, w1)))"

text \<open>
  A tool request is a dict with the optional keys \<open>tool_name\<close> (a string) and
  \<open>parameters\<close>; \<open>None\<close> stands for an absent key.
\<close>

record tool_request =
  req_tool_name :: "string option"
  req_parameters :: "params option"

text \<open>
  The first loop of \<open>execute_multiple_tools\<close>: one task per request whose tool name is
  neither absent nor empty; the others are skipped.
\<close>

fun build_tasks :: "tool_request list \<Rightarrow> (string \<times> params) list" where
  "build_tasks [] = []"
| "build_tasks (request # requests) =
    (let ps = (case req_parameters request of None \<Rightarrow> PDict [] | Some p \<Rightarrow> p)
     in case req_tool_name request of
          None \<Rightarrow> build_tasks requests
        | Some tn \<Rightarrow> if tn \<noteq> [] then (tn, ps) # build_tasks requests else build_tasks requests)"

text \<open>
  \<open>asyncio.gather(*tasks, return_exceptions=True)\<close>: every task runs to its end and the
  outcomes come back in the order of the tasks, an exception as a value. The tasks are
  run here one after the other; how the event loop interleaves them is not modelled.
\<close>

fun gather :: "(string \<times> params) list \<Rightarrow> ToolRegistry \<Rightarrow> world \<Rightarrow> (exn + ToolResult) list \<times> ToolRegistry \<times> world" where
  "gather [] reg w = ([], reg, w)"
| "gather ((tn, ps) # tasks) reg w =
    (case execute_tool tn ps None reg w of
       (r, reg1, w1) \<Rightarrow>
         (case gather tasks reg1 w1 of
            (rs, reg2, w2) \<Rightarrow> (r # rs, reg2, w2)))"

text \<open>
  The second loop: the outcome at position \<open>i\<close> that is an exception becomes a failed
  result named after \<open>tool_requests[i]\<close>. There are never more outcomes than requests,
  so the index is in range.
\<close>

definition process_result :: "tool_request list \<Rightarrow> nat \<times> (exn + ToolResult) \<Rightarrow> ToolResult" where
  "process_result tool_requests ir =
    (case snd ir of
       Inl e \<Rightarrow>
         failed_result
           (case req_tool_name (tool_requests ! fst ir) of None \<Rightarrow> ''unknown'' | Some tn \<Rightarrow> tn)
           (''Tool execution exception: '' @ exn_str e)
     | Inr r \<Rightarrow> r)"

definition execute_multiple_tools :: "tool_request list \<Rightarrow> ToolRegistry \<Rightarrow> world \<Rightarrow> ToolResult list \<times> ToolRegistry \<times> world" where
  "execute_multiple_tools tool_requests reg w =
    (let tasks = build_tasks tool_requests
     in if tasks = [] then ([], reg, w)
        else case gather tasks reg w of
               (results, reg1, w1) \<Rightarrow>
                 (map (process_result tool_requests) (enumerate 0 results), reg1, w1))"

section \<open>Intent classifier (agents/intent\_classifier.py)\<close>

text \<open>
  \<open>_fallback_classification\<close>: keyword matching over the lower-cased query, first
  matching keyword set wins.
\<close>

definition fallback_classification :: "string \<Rightarrow> IntentClassification" where
  "fallback_classification user_query =
    (let query_lower = lower user_query in
     if list_ex (\<lambda>word. str_in word query_lower)
          [''code'', ''program'', ''function'', ''script'', ''debug'']
     then \<lparr>intent = ''code_generation'', confidence = 0.7,
           suggested_tools = [''text_generation''],
           parameters = [(''text_generation'', PDict [(''prompt'', PStr (''Help with coding: '' @ user_query))])],
           reasoning = Some ''Detected code-related keywords''\<rparr>
     else if list_ex (\<lambda>word. str_in word query_lower)
          [''search'', ''find'', ''what is'', ''current'', ''news'', ''latest'']
     then \<lparr>intent = ''web_search'', confidence = 0.6,
           suggested_tools = [''text_generation''],
           parameters = [(''text_generation'', PDict [(''prompt'', PStr (''Provide information about: '' @ user_query))])],
           reasoning = Some ''Detected search-related keywords''\<rparr>
     else if list_ex (\<lambda>word. str_in word query_lower)
          [''image'', ''picture'', ''draw'', ''create visual'', ''generate image'']
     then \<lparr>intent = ''image_generation'', confidence = 0.8,
           suggested_tools = [''text_generation''],
           parameters = [(''text_generation'', PDict [(''prompt'', PStr (''Describe image generation request: '' @ user_query))])],
           reasoning = Some ''Detected image-related keywords''\<rparr>
     else if list_ex (\<lambda>word. str_in word query_lower)
          [''calculate'', ''math'', ''compute'', ''solve'', ''equation'']
     then \<lparr>intent = ''calculation'', confidence = 0.7,
           suggested_tools = [''text_generation''],
           parameters = [(''text_generation'', PDict [(''prompt'', PStr (''Help with calculation: '' @ user_query))])],
           reasoning = Some ''Detected calculation-related keywords''\<rparr>
     else \<lparr>intent = ''text_generation'', confidence = 0.5,
           suggested_tools = [''text_generation''],
           parameters = [(''text_generation'', PDict [(''prompt'', PStr user_query)])],
           reasoning = Some ''Default classification for general text generation''\<rparr>)"

text \<open>
  The context handed to the classifier: the recent conversation and the last assistant
  response, each present or not.
\<close>

record context_entry =
  ce_type :: MessageType
  ce_content :: pyval
  ce_timestamp :: real

record classifier_context =
  recent_conversation :: "context_entry list option"
  last_assistant_response :: "pyval option"

text \<open>
  The external classification backend. It stands for the part of the \<open>try\<close> block of
  \<open>classify_intent\<close> that leaves the program: building the messages, the chat
  completion call, \<open>json.loads\<close> and the type validation of the fields. Anything that
  raises there (no connection, malformed JSON, a field of the wrong type) is \<open>Inl\<close>;
  otherwise the reply is the parsed JSON object, each of the five fields present or
  absent.
\<close>

record classification_data =
  cd_intent :: "string option"
  cd_confidence :: "real option"
  cd_suggested_tools :: "string list option"
  cd_parameters :: "(string, pyval) dict option"
  cd_reasoning :: "string option option"

type_synonym classifier_client = "string \<Rightarrow> classifier_context \<Rightarrow> exn + classification_data"

definition classify_intent :: "classifier_client option \<Rightarrow> string \<Rightarrow> classifier_context \<Rightarrow> IntentClassification" where
  "classify_intent client user_query ctx =
    (case client of
       None \<Rightarrow> fallback_classification user_query
     | Some call \<Rightarrow>
         (case call user_query ctx of
            Inl e \<Rightarrow> fallback_classification user_query
          | Inr classification_data \<Rightarrow>
              \<lparr>intent = (case cd_intent classification_data of
                           None \<Rightarrow> ''text_generation'' | Some i \<Rightarrow> i),
               confidence = (case cd_confidence classification_data of
                               None \<Rightarrow> 0.5 | Some c \<Rightarrow> c),
               suggested_tools = (case cd_suggested_tools classification_data of
                                    None \<Rightarrow> [''text_generation''] | Some ts \<Rightarrow> ts),
               parameters = (case cd_parameters classification_data of
                               None \<Rightarrow> [(''text_generation'', PDict [(''prompt'', PStr user_query)])]
                             | Some ps \<Rightarrow> ps),
               reasoning = (case cd_reasoning classification_data of
                              None \<Rightarrow> Some ''Default classification'' | Some r \<Rightarrow> r)\<rparr>))"

text \<open>\<open>xs[-5:]\<close>.\<close>

definition last5 :: "'a list \<Rightarrow> 'a list" where
  "last5 xs = drop (length xs - 5) xs"

definition classify_with_history :: "classifier_client option \<Rightarrow> string \<Rightarrow> context_entry list \<Rightarrow> IntentClassification" where
  "classify_with_history client user_query history =
    (let ctx0 = \<lparr>recent_conversation = None, last_assistant_response = None\<rparr>;
         ctx =
           (if history \<noteq> [] then
              (let recent_messages = last5 history;
                   ctx1 = ctx0\<lparr>recent_conversation := Some recent_messages\<rparr>
               in if length recent_messages > 0 \<and> ce_type (last recent_messages) = ASSISTANT
                  then ctx1\<lparr>last_assistant_response := Some (ce_content (last recent_messages))\<rparr>
                  else ctx1)
            else ctx0)
     in classify_intent client user_query ctx)"

section \<open>Response formatting (agents/agent\_orchestrator.py)\<close>

text \<open>
  The body of the loop over the completed results: \<open>content_parts\<close> before, and after
  (or the ValidationError of a content that is neither a string nor a dict).
  \<open>payload\<close> is \<open>result.result or {}\<close>, so \<open>payload \<noteq> []\<close> is the truth value of
  \<open>result.result\<close>.
\<close>

definition format_completed :: "ToolResult \<Rightarrow> MessageContent list \<Rightarrow> exn + MessageContent list" where
  "format_completed r content_parts =
    (let payload = (case result r of None \<Rightarrow> [] | Some d \<Rightarrow> d) in
     if tool_name r = ''text_generation'' \<and> payload \<noteq> [] then
       (let generated_text = py_get payload ''generated_text'' (PStr '''') in
        if truthy generated_text then
          (case MessageContent_new TEXT generated_text
                  [(''tool_used'', PStr (tool_name r)),
                   (''model'', py_get payload ''model_used'' PNone),
                   (''tokens'', py_get payload ''tokens_used'' PNone),
                   (''execution_time'', opt_float (execution_time r))] of
             Inl e \<Rightarrow> Inl e
           | Inr block \<Rightarrow> Inr (content_parts @ [block]))
        else Inr content_parts)
     else if tool_name r = ''code_execution'' \<and> payload \<noteq> [] then
       (let code_output = py_get payload ''output'' (PStr '''') in
        case MessageContent_new CODE code_output
                [(''tool_used'', PStr (tool_name r)),
                 (''language'', py_get payload ''language'' PNone),
                 (''execution_time'', opt_float (execution_time r))] of
          Inl e \<Rightarrow> Inl e
        | Inr block \<Rightarrow> Inr (content_parts @ [block]))
     else if tool_name r = ''image_generation'' \<and> payload \<noteq> [] then
       (let image_url = py_get payload ''image_url'' (PStr '''') in
        Inr (content_parts @
          [\<lparr>mc_type = IMAGE,
            mc_content = PDict [(''url'', image_url),
                                (''description'', py_get payload ''description'' (PStr ''''))],
            mc_metadata = Some [(''tool_used'', PStr (tool_name r)),
                                (''execution_time'', opt_float (execution_time r))]\<rparr>]))
     else
       Inr (content_parts @
         [\<lparr>mc_type = DATA,
           mc_content = PDict payload,
           mc_metadata = Some [(''tool_used'', PStr (tool_name r)),
                               (''execution_time'', opt_float (execution_time r))]\<rparr>]))"

fun format_loop :: "ToolResult list \<Rightarrow> MessageContent list \<Rightarrow> exn + MessageContent list" where
  "format_loop [] content_parts = Inr content_parts"
| "format_loop (r # rs) content_parts =
    (case format_completed r content_parts of
       Inl e \<Rightarrow> Inl e
     | Inr content_parts1 \<Rightarrow> format_loop rs content_parts1)"

text \<open>\<open>_generate_fallback_response\<close>.\<close>

definition generate_fallback_response :: "IntentClassification \<Rightarrow> string \<Rightarrow> MessageContent" where
  "generate_fallback_response classification original_query =
    (let fallback_responses =
       [(''text_generation'',
           ''I understand you're asking: '' @ quoted original_query @
           ''. I'd be happy to help, but I'm currently unable to generate a detailed response. Please try again or rephrase your question.''),
        (''code_generation'',
           ''I see you need help with coding. While I can't execute code right now, I can suggest that you're looking for help with: '' @
           quoted original_query @ ''. Please try again later.''),
        (''web_search'',
           ''You're looking for information about: '' @ quoted original_query @
           ''. I'm currently unable to search the web, but I recommend checking reliable sources for this information.''),
        (''image_generation'',
           ''I understand you want to create an image related to: '' @ quoted original_query @
           ''. Image generation is currently unavailable, but I can help describe what such an image might look like.''),
        (''calculation'',
           ''I see you need help with calculations: '' @ quoted original_query @
           ''. While my calculation tools are unavailable, you might want to use a calculator or math software.''),
        (''data_analysis'',
           ''You're looking to analyze data related to: '' @ quoted original_query @
           ''. Data analysis tools are currently unavailable, but I can suggest general approaches to your analysis needs.'')];
       fallback_text =
         (case dict_get fallback_responses (intent classification) of
            Some t \<Rightarrow> t
          | None \<Rightarrow>
              ''I received your message: '' @ quoted original_query @
              ''. I'm currently unable to process this request fully, but I'm here to help. Please try again or ask something else.'')
     in \<lparr>mc_type = TEXT, mc_content = PStr fallback_text,
         mc_metadata = Some [(''fallback'', PBool True),
                             (''original_intent'', PStr (intent classification))]\<rparr>)"

text \<open>The block that merges the failed results.\<close>

definition failed_block :: "ToolResult list \<Rightarrow> MessageContent" where
  "failed_block failed_results =
    (let error_messages =
       map (\<lambda>r. ''Tool '' @ quoted (tool_name r) @ '' failed: '' @ str_opt (error r)) failed_results
     in \<lparr>mc_type = ERROR,
         mc_content = PStr (''Some tools encountered errors:'' @ newline @ join newline error_messages),
         mc_metadata = Some [(''failed_tools'', PList (map (\<lambda>r. PStr (tool_name r)) failed_results))]\<rparr>)"

text \<open>\<open>_format_response\<close>.\<close>

definition format_response :: "IntentClassification \<Rightarrow> ToolResult list \<Rightarrow> string \<Rightarrow> exn + MessageContent list" where
  "format_response classification tool_results original_query =
    (let successful_results = filter (\<lambda>r. status r = COMPLETED) tool_results;
         failed_results = filter (\<lambda>r. status r = FAILED) tool_results
     in case (if successful_results \<noteq> [] then format_loop successful_results [] else Inr []) of
          Inl e \<Rightarrow> Inl e
        | Inr content_parts1 \<Rightarrow>
            (let content_parts2 =
                   (if failed_results \<noteq> [] then content_parts1 @ [failed_block failed_results]
                    else content_parts1);
                 content_parts3 =
                   (if successful_results = []
                    then content_parts2 @ [generate_fallback_response classification original_query]
                    else content_parts2)
             in Inr content_parts3))"

section \<open>Orchestrator (agents/agent\_orchestrator.py)\<close>

record session =
  created_at :: real
  message_count :: int

record AgentOrchestrator =
  active_sessions :: "(string, session) dict"
  conversation_history :: "(string, ChatMessage list) dict"

definition AgentOrchestrator_init :: AgentOrchestrator where
  "AgentOrchestrator_init = \<lparr>active_sessions = [], conversation_history = []\<rparr>"

text \<open>
  What a query runs in: the orchestrator, the global tool registry and the world. The
  classifier's client is fixed when the process starts and is a parameter.
\<close>

record system =
  sys_orch :: AgentOrchestrator
  sys_reg :: ToolRegistry
  sys_world :: world

definition key_error :: "string \<Rightarrow> exn" where
  "key_error k = Exn ''KeyError'' (quoted k)"

text \<open>\<open>_get_conversation_context\<close>.\<close>

definition get_conversation_context :: "string \<Rightarrow> AgentOrchestrator \<Rightarrow> context_entry list" where
  "get_conversation_context session_id orch =
    (case dict_get (conversation_history orch) session_id of
       None \<Rightarrow> []
     | Some h \<Rightarrow>
         map (\<lambda>msg. \<lparr>ce_type = cm_type msg,
                      ce_content = (if cm_content msg \<noteq> [] then mc_content (hd (cm_content msg)) else PStr ''''),
                      ce_timestamp = cm_timestamp msg\<rparr>)
             (last5 h))"

definition clear_session :: "string \<Rightarrow> AgentOrchestrator \<Rightarrow> bool \<times> AgentOrchestrator" where
  "clear_session session_id orch =
    (let orch1 = (if dict_in session_id (active_sessions orch)
                  then orch\<lparr>active_sessions := dict_del session_id (active_sessions orch)\<rparr>
                  else orch);
         orch2 = (if dict_in session_id (conversation_history orch1)
                  then orch1\<lparr>conversation_history := dict_del session_id (conversation_history orch1)\<rparr>
                  else orch1)
     in (True, orch2))"

text \<open>\<open>process_query\<close>, "Initialize session if needed".\<close>

definition init_session :: "string \<Rightarrow> AgentOrchestrator \<Rightarrow> world \<Rightarrow> AgentOrchestrator \<times> world" where
  "init_session session_id orch w =
    (if \<not> dict_in session_id (active_sessions orch)
     then (let (now, w1) = time_time w
           in (orch\<lparr>active_sessions :=
                       dict_set session_id \<lparr>created_at = now, message_count = 0\<rparr> (active_sessions orch),
                     conversation_history := dict_set session_id [] (conversation_history orch)\<rparr>, w1))
     else (orch, w))"

text \<open>
  \<open>process_query\<close>, "Update session" and "Add user message to history". A subscript on
  a missing key raises KeyError.
\<close>

definition add_user_message :: "string \<Rightarrow> UserQuery \<Rightarrow> AgentOrchestrator \<Rightarrow> world \<Rightarrow> (exn + ChatMessage) \<times> AgentOrchestrator \<times> world" where
  "add_user_message session_id query orch w =
    (case dict_get (active_sessions orch) session_id of
       None \<Rightarrow> (Inl (key_error session_id), orch, w)
     | Some sess \<Rightarrow>
         (let orch1 = orch\<lparr>active_sessions :=
                             dict_set session_id (sess\<lparr>message_count := message_count sess + 1\<rparr>)
                               (active_sessions orch)\<rparr>;
              (uid, w1) = uuid4 w;
              (now, w2) = time_time w1;
              user_message =
                \<lparr>cm_id = uid, cm_type = USER,
                 cm_content = [\<lparr>mc_type = TEXT, mc_content = PStr (uq_message query), mc_metadata = None\<rparr>],
                 cm_timestamp = now, cm_user_id = uq_user_id query,
                 cm_session_id = Some session_id, cm_tool_results = None\<rparr>
          in case dict_get (conversation_history orch1) session_id of
               None \<Rightarrow> (Inl (key_error session_id), orch1, w2)
             | Some h \<Rightarrow>
                 (Inr user_message,
                  orch1\<lparr>conversation_history :=
                          dict_set session_id (h @ [user_message]) (conversation_history orch1)\<rparr>,
                  w2)))"

text \<open>
  "Prepare tool execution requests": one request per suggested tool that has an entry in
  the parameter mapping.
\<close>

definition build_requests :: "IntentClassification \<Rightarrow> tool_request list" where
  "build_requests classification =
    concat (map (\<lambda>tn. case dict_get (parameters classification) tn of
                        None \<Rightarrow> []
                      | Some ps \<Rightarrow> [\<lparr>req_tool_name = Some tn, req_parameters = Some ps\<rparr>])
                (suggested_tools classification))"

text \<open>"Step 2: Execute tools".\<close>

definition execute_step :: "IntentClassification \<Rightarrow> callback option \<Rightarrow> ToolRegistry \<Rightarrow> world \<Rightarrow> (exn + ToolResult list) \<times> ToolRegistry \<times> world" where
  "execute_step classification cb reg w =
    (if suggested_tools classification \<noteq> [] then
       (case call_callback cb ''Executing tools...'' 0.5 w of
          (Some e, w1) \<Rightarrow> (Inl e, reg, w1)
        | (None, w1) \<Rightarrow>
            (let tool_requests = build_requests classification
             in case (if tool_requests \<noteq> [] then execute_multiple_tools tool_requests reg w1
                      else ([], reg, w1)) of
                  (tool_results, reg2, w2) \<Rightarrow>
                    (case call_callback cb ''Processing results...'' 0.8 w2 of
                       (Some e, w3) \<Rightarrow> (Inl e, reg2, w3)
                     | (None, w3) \<Rightarrow> (Inr tool_results, reg2, w3))))
     else (Inr [], reg, w))"

text \<open>
  "Step 3: Format response" to the \<open>return\<close>: the response is built, the assistant
  message is appended to the history and the last notification is sent.
\<close>

definition deliver :: "callback option \<Rightarrow> real \<Rightarrow> string \<Rightarrow> string \<Rightarrow> IntentClassification \<Rightarrow> ToolResult list \<Rightarrow> MessageContent list \<Rightarrow> AgentOrchestrator \<Rightarrow> world \<Rightarrow> (exn + AgentResponse) \<times> AgentOrchestrator \<times> world" where
  "deliver cb start_time session_id mid classification tool_results response_content orch w =
    (let (now, w1) = time_time w;
         agent_response =
           \<lparr>message_id = mid, response_type = ASSISTANT, ar_content = response_content,
            tools_used = Some (suggested_tools classification),
            processing_time = Some (now - start_time), ar_session_id = Some session_id\<rparr>;
         (stamp, w2) = time_time w1;
         assistant_message =
           \<lparr>cm_id = mid, cm_type = ASSISTANT, cm_content = response_content,
            cm_timestamp = stamp, cm_user_id = None, cm_session_id = Some session_id,
            cm_tool_results = Some tool_results\<rparr>
     in case dict_get (conversation_history orch) session_id of
          None \<Rightarrow> (Inl (key_error session_id), orch, w2)
        | Some h \<Rightarrow>
            (let orch1 = orch\<lparr>conversation_history :=
                                dict_set session_id (h @ [assistant_message]) (conversation_history orch)\<rparr>
             in case call_callback cb ''Response ready!'' 1.0 w2 of
                  (Some e, w3) \<Rightarrow> (Inl e, orch1, w3)
                | (None, w3) \<Rightarrow> (Inr agent_response, orch1, w3)))"

text \<open>
  The \<open>try\<close> block of \<open>process_query\<close> from the first progress report on: the
  response, or the exception that escapes, with the state as it is at that point.
\<close>

definition run_pipeline :: "classifier_client option \<Rightarrow> UserQuery \<Rightarrow> callback option \<Rightarrow> real \<Rightarrow> string \<Rightarrow> string \<Rightarrow> AgentOrchestrator \<Rightarrow> ToolRegistry \<Rightarrow> world \<Rightarrow> (exn + AgentResponse) \<times> system" where
  "run_pipeline client query cb start_time session_id mid orch reg w =
    (case call_callback cb ''Analyzing your request...'' 0.1 w of
       (Some e, w3) \<Rightarrow> (Inl e, \<lparr>sys_orch = orch, sys_reg = reg, sys_world = w3\<rparr>)
     | (None, w3) \<Rightarrow>
    (let history = get_conversation_context session_id orch;
         classification = classify_with_history client (uq_message query) history
     in
    (case call_callback cb (''Intent classified: '' @ intent classification) 0.3 w3 of
       (Some e, w4) \<Rightarrow> (Inl e, \<lparr>sys_orch = orch, sys_reg = reg, sys_world = w4\<rparr>)
     | (None, w4) \<Rightarrow>
    (case execute_step classification cb reg w4 of
       (Inl e, reg5, w5) \<Rightarrow> (Inl e, \<lparr>sys_orch = orch, sys_reg = reg5, sys_world = w5\<rparr>)
     | (Inr tool_results, reg5, w5) \<Rightarrow>
    (case format_response classification tool_results (uq_message query) of
       Inl e \<Rightarrow> (Inl e, \<lparr>sys_orch = orch, sys_reg = reg5, sys_world = w5\<rparr>)
     | Inr response_content \<Rightarrow>
    (case deliver cb start_time session_id mid classification tool_results response_content orch w5 of
       (r, orch6, w6) \<Rightarrow> (r, \<lparr>sys_orch = orch6, sys_reg = reg5, sys_world = w6\<rparr>)))))))"

text \<open>The whole \<open>try\<close> block.\<close>

definition process_query_try :: "classifier_client option \<Rightarrow> UserQuery \<Rightarrow> callback option \<Rightarrow> real \<Rightarrow> string \<Rightarrow> string \<Rightarrow> system \<Rightarrow> (exn + AgentResponse) \<times> system" where
  "process_query_try client query cb start_time session_id mid s =
    (case init_session session_id (sys_orch s) (sys_world s) of
       (orch1, w1) \<Rightarrow>
         (case add_user_message session_id query orch1 w1 of
            (Inl e, orch2, w2) \<Rightarrow> (Inl e, \<lparr>sys_orch = orch2, sys_reg = sys_reg s, sys_world = w2\<rparr>)
          | (Inr user_message, orch2, w2) \<Rightarrow>
              run_pipeline client query cb start_time session_id mid orch2 (sys_reg s) w2))"

text \<open>
  \<open>process_query\<close>: the three lines before \<open>try\<close>, the \<open>try\<close> block, and the
  \<open>except Exception\<close> handler that turns an escaping exception into the error response.
\<close>

definition error_response :: "string \<Rightarrow> string \<Rightarrow> real \<Rightarrow> exn \<Rightarrow> AgentResponse" where
  "error_response mid session_id elapsed e =
    \<lparr>message_id = mid, response_type = ERROR_MESSAGE,
     ar_content =
       [\<lparr>mc_type = ERROR,
         mc_content = PStr (''I encountered an error processing your request: '' @ exn_str e),
         mc_metadata = Some [(''error_type'', PStr (exn_type e))]\<rparr>],
     tools_used = None, processing_time = Some elapsed, ar_session_id = Some session_id\<rparr>"

definition resolve_session_id :: "UserQuery \<Rightarrow> world \<Rightarrow> string \<times> world" where
  "resolve_session_id query w =
    (case uq_session_id query of
       None \<Rightarrow> uuid4 w
     | Some sid \<Rightarrow> if sid \<noteq> [] then (sid, w) else uuid4 w)"

definition process_query :: "classifier_client option \<Rightarrow> UserQuery \<Rightarrow> callback option \<Rightarrow> system \<Rightarrow> AgentResponse \<times> system" where
  "process_query client query cb s =
    (let (start_time, w0) = time_time (sys_world s);
         (session_id, w1) = resolve_session_id query w0;
         (mid, w2) = uuid4 w1
     in case process_query_try client query cb start_time session_id mid (s\<lparr>sys_world := w2\<rparr>) of
          (Inr response, s1) \<Rightarrow> (response, s1)
        | (Inl e, s1) \<Rightarrow>
            (let (now, w3) = time_time (sys_world s1)
             in (error_response mid session_id (now - start_time) e, s1\<lparr>sys_world := w3\<rparr>)))"

section \<open>Concrete inputs\<close>

text \<open>
  A world whose clock reads 0, 1, 2, ... and whose identifiers are u, uu, uuu, ...; a
  generation backend that always answers; a classification backend whose reply suggests no
  tool, and one whose reply suggests a tool without parameters; a callback that cannot
  deliver; the default tool registered again under another category.
\<close>

definition example_world :: world where
  "example_world =
    \<lparr>time_src = (\<lambda>n. real n), time_idx = 0,
     uuid_src = (\<lambda>n. replicate (Suc n) (CHR ''u'')), uuid_idx = 0, trace = []\<rparr>"

definition example_client :: openai_client where
  "example_client model prompt max_tokens temperature =
     Inr \<lparr>message_content = Some ''Hi there'', total_tokens = Some 7, finish_reason = ''stop''\<rparr>"

definition no_tools_client :: classifier_client where
  "no_tools_client user_query ctx =
     Inr \<lparr>cd_intent = Some ''general_chat'', cd_confidence = Some 0.9,
          cd_suggested_tools = Some [], cd_parameters = Some [],
          cd_reasoning = Some (Some ''casual greeting'')\<rparr>"

definition no_parameters_client :: classifier_client where
  "no_parameters_client user_query ctx =
     Inr \<lparr>cd_intent = Some ''web_search'', cd_confidence = Some 0.8,
          cd_suggested_tools = Some [''web_search''], cd_parameters = Some [],
          cd_reasoning = None\<rparr>"

definition failing_callback :: callback where
  "failing_callback msg p = Some (Exn ''ConnectionError'' ''connection closed'')"

definition general_text_tool :: BaseTool where
  "general_text_tool = (TextGenerationTool None)\<lparr>category := ''general''\<rparr>"

definition enabled_general_text_tool :: BaseTool where
  "enabled_general_text_tool = (TextGenerationTool (Some example_client))\<lparr>category := ''general''\<rparr>"


definition empty_text_result :: ToolResult where
  "empty_text_result =
    \<lparr>tool_name = ''text_generation'', status = COMPLETED,
     result = Some [(''generated_text'', PStr []), (''model_used'', PStr ''gpt-4''),
                    (''tokens_used'', PInt 0), (''finish_reason'', PStr ''stop'')],
     error = None, execution_time = Some 2\<rparr>"





definition empty_context :: classifier_context where
  "empty_context = \<lparr>recent_conversation = None, last_assistant_response = None\<rparr>"

definition example_system :: system where
  "example_system =
    \<lparr>sys_orch = AgentOrchestrator_init, sys_reg = ToolRegistry_init None, sys_world = example_world\<rparr>"

definition hello_query :: UserQuery where
  "hello_query =
    \<lparr>uq_message = ''Hello'', uq_session_id = Some ''s1'', uq_user_id = None, uq_context = None\<rparr>"

section \<open>Predicates used to state the properties\<close>

text \<open>Every tool of the primary index is filed under its own name and listed in its category.\<close>

definition listed :: "ToolRegistry \<Rightarrow> bool" where
  "listed reg \<longleftrightarrow>
     (\<forall>tn tool. dict_get (tools reg) tn = Some tool \<longrightarrow>
        name tool = tn \<and>
        (\<exists>names. dict_get (tool_categories reg) (category tool) = Some names \<and> tn \<in> set names))"

text \<open>Every active session has a conversation history.\<close>

definition sessions_consistent :: "AgentOrchestrator \<Rightarrow> bool" where
  "sessions_consistent orch \<longleftrightarrow>
     (\<forall>sid. dict_in sid (active_sessions orch) \<longrightarrow> dict_in sid (conversation_history orch))"



text \<open>The invariant of section 4.3: at least one tool, and parameters for every tool.\<close>

definition tools_have_parameters :: "IntentClassification \<Rightarrow> bool" where
  "tools_have_parameters c \<longleftrightarrow>
     suggested_tools c \<noteq> [] \<and> list_all (\<lambda>tn. dict_in tn (parameters c)) (suggested_tools c)"

text \<open>A request names a tool when its tool name is present and not empty.\<close>

definition names_tool :: "tool_request \<Rightarrow> bool" where
  "names_tool request = (case req_tool_name request of None \<Rightarrow> False | Some tn \<Rightarrow> tn \<noteq> [])"

text \<open>The parameters of a request, \<open>{}\<close> when absent.\<close>

definition request_parameters :: "tool_request \<Rightarrow> params" where
  "request_parameters request = (case req_parameters request of None \<Rightarrow> PDict [] | Some p \<Rightarrow> p)"

text \<open>The user message of a query is in the history of the session.\<close>

definition user_message_recorded :: "UserQuery \<Rightarrow> string \<Rightarrow> AgentOrchestrator \<Rightarrow> bool" where
  "user_message_recorded query session_id orch \<longleftrightarrow>
     (\<exists>h um. dict_get (conversation_history orch) session_id = Some h \<and> um \<in> set h
        \<and> cm_type um = USER
        \<and> cm_content um = [\<lparr>mc_type = TEXT, mc_content = PStr (uq_message query), mc_metadata = None\<rparr>])"

section \<open>Properties of the dictionaries\<close>

lemma dict_get_dict_set: "dict_get (dict_set k v d) k' = (if k' = k then Some v else dict_get d k')"
  by (induction d) (auto simp: dict_get_def)

lemma dict_get_dict_del: "dict_get (dict_del k d) k' = (if k' = k then None else dict_get d k')"
  by (induction d) (auto simp: dict_get_def dict_del_def)

lemma dict_keys_dict_get: "k \<in> set (dict_keys d) \<longleftrightarrow> dict_get d k \<noteq> None"
  by (induction d) (auto simp: dict_get_def dict_keys_def)

section \<open>Properties of the tool registry\<close>

text \<open>
  Registration ends with the tool filed under its name and listed in its category, and no
  operation takes a registered tool out of its category's list: \<open>listed\<close> holds of
  every registry that the operations build.
\<close>

lemma register_tools:
  "tools (snd (register_tool tool reg)) = dict_set (name tool) tool (tools reg)"
  by (simp add: register_tool_def Let_def)

lemma register_cats_other:
  "c \<noteq> category tool \<Longrightarrow>
     dict_get (tool_categories (snd (register_tool tool reg))) c = dict_get (tool_categories reg) c"
  by (simp add: register_tool_def Let_def dict_get_dict_set)

lemma register_cats_same:
  "dict_get (tool_categories (snd (register_tool tool reg))) (category tool) =
     (case dict_get (tool_categories reg) (category tool) of
        None \<Rightarrow> Some [name tool]
      | Some names \<Rightarrow> Some (if name tool \<in> set names then names else names @ [name tool]))"
  by (simp add: register_tool_def Let_def dict_get_dict_set dict_in_def split: option.splits)

lemma listed_register: "listed reg \<Longrightarrow> listed (snd (register_tool tool reg))"
  unfolding listed_def
proof (intro allI impI)
  fix tn t
  assume inv: "\<forall>tn tool. dict_get (tools reg) tn = Some tool \<longrightarrow> name tool = tn \<and>
        (\<exists>names. dict_get (tool_categories reg) (category tool) = Some names \<and> tn \<in> set names)"
  assume "dict_get (tools (snd (register_tool tool reg))) tn = Some t"
  then have look: "(if tn = name tool then Some tool else dict_get (tools reg) tn) = Some t"
    by (simp add: register_tools dict_get_dict_set)
  show "name t = tn \<and>
        (\<exists>names. dict_get (tool_categories (snd (register_tool tool reg))) (category t) = Some names
                  \<and> tn \<in> set names)"
  proof (cases "tn = name tool")
    case True
    with look have "t = tool" by simp
    with True show ?thesis
      by (auto simp: register_cats_same split: option.splits)
  next
    case False
    with look have old: "dict_get (tools reg) tn = Some t" by simp
    with inv obtain names where n: "name t = tn"
      and c: "dict_get (tool_categories reg) (category t) = Some names" and m: "tn \<in> set names"
      by blast
    show ?thesis
    proof (cases "category t = category tool")
      case True
      with n c m show ?thesis by (auto simp: register_cats_same)
    next
      case False
      with n c m show ?thesis by (simp add: register_cats_other)
    qed
  qed
qed

lemma unregister_absent:
  "dict_get (tools reg) tn = None \<Longrightarrow> unregister_tool tn reg = (False, reg)"
  by (simp add: unregister_tool_def)

lemma unregister_tools:
  "dict_get (tools reg) tn = Some tool \<Longrightarrow>
     tools (snd (unregister_tool tn reg)) = dict_del tn (tools reg)"
  by (simp add: unregister_tool_def Let_def)

lemma unregister_cats_other:
  "dict_get (tools reg) tn = Some tool \<Longrightarrow> c \<noteq> category tool \<Longrightarrow>
     dict_get (tool_categories (snd (unregister_tool tn reg))) c = dict_get (tool_categories reg) c"
  by (simp add: unregister_tool_def Let_def dict_get_dict_set dict_get_dict_del split: option.splits)

lemma unregister_cats_same:
  "dict_get (tools reg) tn = Some tool \<Longrightarrow>
     dict_get (tool_categories (snd (unregister_tool tn reg))) (category tool) =
       (case dict_get (tool_categories reg) (category tool) of
          None \<Rightarrow> None
        | Some names \<Rightarrow> if remove1 tn names = [] then None else Some (remove1 tn names))"
  by (auto simp: unregister_tool_def Let_def dict_get_dict_set dict_get_dict_del remove1_idem
           split: option.splits)

lemma listed_unregister: "listed reg \<Longrightarrow> listed (snd (unregister_tool tn reg))"
proof (cases "dict_get (tools reg) tn")
  case None
  assume "listed reg"
  with None show ?thesis by (simp add: unregister_absent)
next
  case (Some tool)
  assume "listed reg"
  then have inv: "\<And>n t. dict_get (tools reg) n = Some t \<Longrightarrow> name t = n \<and>
        (\<exists>names. dict_get (tool_categories reg) (category t) = Some names \<and> n \<in> set names)"
    unfolding listed_def by blast
  show ?thesis
    unfolding listed_def
  proof (intro allI impI)
    fix n t
    assume "dict_get (tools (snd (unregister_tool tn reg))) n = Some t"
    with Some have ne: "n \<noteq> tn" and old: "dict_get (tools reg) n = Some t"
      by (auto simp: unregister_tools dict_get_dict_del split: if_splits)
    from inv [OF old] obtain names where n: "name t = n"
      and c: "dict_get (tool_categories reg) (category t) = Some names" and m: "n \<in> set names"
      by blast
    from m ne have m': "n \<in> set (remove1 tn names)" by simp
    then have "remove1 tn names \<noteq> []" by auto
    with n c m m' Some show "name t = n \<and>
        (\<exists>names. dict_get (tool_categories (snd (unregister_tool tn reg))) (category t) = Some names
                  \<and> n \<in> set names)"
      by (cases "category t = category tool")
         (simp_all add: unregister_cats_same unregister_cats_other)
  qed
qed

lemma listed_enable: "listed reg \<Longrightarrow> listed (snd (enable_tool tn reg))"
  unfolding listed_def enable_tool_def get_tool_def
  by (auto simp: dict_get_dict_set split: option.splits if_splits)

lemma listed_disable: "listed reg \<Longrightarrow> listed (snd (disable_tool tn reg))"
  unfolding listed_def disable_tool_def get_tool_def
  by (auto simp: dict_get_dict_set split: option.splits if_splits)

lemma listed_apply_op: "listed reg \<Longrightarrow> listed (apply_op reg x)"
  by (cases x) (simp_all add: listed_register listed_unregister listed_enable listed_disable)

lemma listed_run_ops: "listed reg \<Longrightarrow> listed (run_ops ops reg)"
  unfolding run_ops_def by (induction ops arbitrary: reg) (simp_all add: listed_apply_op)

lemma listed_init: "listed (ToolRegistry_init client)"
  unfolding ToolRegistry_init_def
  by (rule listed_register) (simp add: listed_def dict_get_def)

lemma get_tools_by_category_enabled:
  "t \<in> set (get_tools_by_category cat reg) \<Longrightarrow> is_enabled t"
  by (auto simp: get_tools_by_category_def split: option.splits if_splits)

lemma get_tools_by_category_member:
  "dict_get (tool_categories reg) cat = Some names \<Longrightarrow> tn \<in> set names \<Longrightarrow>
   dict_get (tools reg) tn = Some t \<Longrightarrow> is_enabled t \<Longrightarrow>
   t \<in> set (get_tools_by_category cat reg)"
  by (force simp: get_tools_by_category_def)

text \<open>
  Claim C7 (register and unregister keep the two indices consistent: the category index
  never names a tool that the primary index lacks, and unregistering the last tool of a
  category removes the category). The default registry holds \<open>text_generation\<close> in
  category \<open>ai\<close>. Registering a tool of the same name in category \<open>general\<close> leaves
  the name in the list of \<open>ai\<close>, and unregistering the name then cleans only
  \<open>general\<close>: the primary index is empty, yet \<open>ai\<close> is still a category and still
  names \<open>text_generation\<close>.
\<close>

theorem unregister_leaves_stale_category:
  "tool_categories (run_ops [Register general_text_tool, Unregister ''text_generation''] (ToolRegistry_init None))
     = [(''ai'', [''text_generation''])]
   \<and> tools (run_ops [Register general_text_tool, Unregister ''text_generation''] (ToolRegistry_init None)) = []
   \<and> get_categories (run_ops [Register general_text_tool, Unregister ''text_generation''] (ToolRegistry_init None))
     = [''ai'']
   \<and> get_tool ''text_generation''
        (run_ops [Register general_text_tool, Unregister ''text_generation''] (ToolRegistry_init None)) = None"
  by (simp add: run_ops_def ToolRegistry_init_def register_tool_def unregister_tool_def
        general_text_tool_def TextGenerationTool_def dict_in_def dict_get_def dict_del_def
        get_categories_def dict_keys_def get_tool_def Let_def)

text \<open>
  Claim C9 as stated (after a tool is registered under a registered name with another
  category, \<open>get_tools_by_category\<close> of the old category returns the new tool) fails for
  a new tool that is disabled: the lookup filters by the enabled flag. Here the enabled
  default tool is replaced by a disabled one of category \<open>general\<close>, and the listing of
  \<open>ai\<close> goes from the old tool to nothing.
\<close>

theorem reregistered_disabled_tool_not_listed:
  "dict_get (tools (ToolRegistry_init (Some example_client))) (name general_text_tool)
      = Some (TextGenerationTool (Some example_client))
   \<and> category (TextGenerationTool (Some example_client)) \<noteq> category general_text_tool
   \<and> get_tools_by_category ''ai'' (ToolRegistry_init (Some example_client))
      = [TextGenerationTool (Some example_client)]
   \<and> get_tools_by_category ''ai'' (snd (register_tool general_text_tool (ToolRegistry_init (Some example_client))))
      = []"
  by (simp add: ToolRegistry_init_def register_tool_def
        general_text_tool_def TextGenerationTool_def dict_in_def dict_get_def
        get_tools_by_category_def is_enabled_def Let_def)

text \<open>
  Claim C9, amended: in a registry built by the registry's operations, registering a tool
  whose name is already registered with a different category leaves the name in the old
  category's list, \<open>get_categories\<close> still lists the old category, the name now
  resolves to the new tool, and \<open>get_tools_by_category\<close> of the old category returns
  the new tool exactly when the new tool is enabled.
\<close>

theorem reregister_keeps_old_category:
  assumes reach: "reg = run_ops ops (ToolRegistry_init client)"
    and old: "get_tool (name new) reg = Some old"
    and diff: "category old \<noteq> category new"
  shows "(\<exists>names. dict_get (tool_categories (snd (register_tool new reg))) (category old) = Some names
             \<and> name new \<in> set names)
     \<and> category old \<in> set (get_categories (snd (register_tool new reg)))
     \<and> get_tool (name new) (snd (register_tool new reg)) = Some new
     \<and> (new \<in> set (get_tools_by_category (category old) (snd (register_tool new reg)))
          \<longleftrightarrow> is_enabled new)"
proof -
  let ?reg' = "snd (register_tool new reg)"
  have "listed reg"
    unfolding reach by (rule listed_run_ops) (rule listed_init)
  with old obtain names where c: "dict_get (tool_categories reg) (category old) = Some names"
    and m: "name new \<in> set names"
    unfolding listed_def get_tool_def by blast
  from diff c have c': "dict_get (tool_categories ?reg') (category old) = Some names"
    by (simp add: register_cats_other)
  have t: "dict_get (tools ?reg') (name new) = Some new"
    by (simp add: register_tools dict_get_dict_set)
  have k: "category old \<in> set (get_categories ?reg')"
    using c' by (simp add: get_categories_def dict_keys_dict_get)
  have e: "new \<in> set (get_tools_by_category (category old) ?reg') \<longleftrightarrow> is_enabled new"
    using get_tools_by_category_enabled [of new "category old" ?reg']
      get_tools_by_category_member [OF c' m t] by blast
  from c' m k t e show ?thesis
    by (simp add: get_tool_def)
qed

theorem reregister_keeps_old_category_witness:
  "get_tool ''text_generation'' (snd (register_tool enabled_general_text_tool (ToolRegistry_init None)))
      = Some enabled_general_text_tool
   \<and> ''ai'' \<in> set (get_categories (snd (register_tool enabled_general_text_tool (ToolRegistry_init None))))
   \<and> enabled_general_text_tool
        \<in> set (get_tools_by_category ''ai'' (snd (register_tool enabled_general_text_tool (ToolRegistry_init None))))"
proof -
  have r: "ToolRegistry_init None = run_ops [] (ToolRegistry_init None)"
    by (simp add: run_ops_def)
  have n: "name enabled_general_text_tool = ''text_generation''"
    by (simp add: enabled_general_text_tool_def TextGenerationTool_def)
  have o: "get_tool (name enabled_general_text_tool) (ToolRegistry_init None)
             = Some (TextGenerationTool None)"
    by (simp add: n get_tool_def ToolRegistry_init_def register_tool_def TextGenerationTool_def
          dict_in_def dict_get_def Let_def)
  have d: "category (TextGenerationTool None) \<noteq> category enabled_general_text_tool"
    by (simp add: enabled_general_text_tool_def TextGenerationTool_def)
  have e: "is_enabled enabled_general_text_tool"
    by (simp add: enabled_general_text_tool_def TextGenerationTool_def is_enabled_def)
  have c: "category (TextGenerationTool None) = ''ai''"
    by (simp add: TextGenerationTool_def)
  show ?thesis
    using reregister_keeps_old_category [OF r o d] e by (simp add: n c)
qed

section \<open>Properties of the intent classifier\<close>

text \<open>\<open>str_in\<close> is the contiguous-sublist relation of the library.\<close>

lemma str_in_sublist: "str_in w s \<longleftrightarrow> sublist w s"
proof -
  have sw: "\<And>w s. starts_with w s \<longleftrightarrow> prefix w s"
  proof -
    fix w s :: string show "starts_with w s \<longleftrightarrow> prefix w s"
      by (induction w s rule: starts_with.induct) auto
  qed
  show ?thesis
    by (induction s) (auto simp: sw sublist_Cons_right)
qed


text \<open>
  Claim C2 as stated (every classification, also one from the external backend, suggests
  at least one tool and has parameters for each suggested tool) fails on the backend
  path: the fields of the reply are taken as they are. A reply with an empty tool list
  gives a classification without tools, and a reply that suggests \<open>web_search\<close> with
  an empty parameter mapping gives a tool without parameters.
\<close>

theorem backend_reply_taken_unchecked:
  "suggested_tools (classify_intent (Some no_tools_client) ''Hello'' empty_context) = []
   \<and> suggested_tools (classify_intent (Some no_parameters_client) ''Hello'' empty_context) = [''web_search'']
   \<and> dict_get (parameters (classify_intent (Some no_parameters_client) ''Hello'' empty_context)) ''web_search'' = None"
  by (simp add: classify_intent_def no_tools_client_def no_parameters_client_def dict_get_def)

lemma fallback_tools_have_parameters: "tools_have_parameters (fallback_classification q)"
  by (simp add: tools_have_parameters_def fallback_classification_def Let_def dict_in_def dict_get_def
           del: list_ex_Cons_iff)

text \<open>
  Claim C2, amended: a classification that comes from the keyword fallback (no backend
  configured, or the backend call failed) or from a backend reply that leaves out both
  \<open>suggested_tools\<close> and \<open>parameters\<close> suggests at least one tool and has a
  parameter entry for every suggested tool.
\<close>

theorem fallback_tools_with_parameters:
  assumes "client = None
     \<or> (\<exists>call e. client = Some call \<and> call q ctx = Inl e)
     \<or> (\<exists>call d. client = Some call \<and> call q ctx = Inr d
            \<and> cd_suggested_tools d = None \<and> cd_parameters d = None)"
  shows "suggested_tools (classify_intent client q ctx) \<noteq> []
     \<and> (\<forall>tn \<in> set (suggested_tools (classify_intent client q ctx)).
           dict_get (parameters (classify_intent client q ctx)) tn \<noteq> None)"
proof -
  have "tools_have_parameters (classify_intent client q ctx)"
    using assms fallback_tools_have_parameters [of q]
    by (auto simp: classify_intent_def tools_have_parameters_def dict_in_def dict_get_def)
  then show ?thesis
    by (simp add: tools_have_parameters_def list_all_iff dict_in_def)
qed

theorem fallback_tools_with_parameters_witness:
  "suggested_tools (classify_intent None ''Hello'' empty_context) = [''text_generation'']
   \<and> dict_get (parameters (classify_intent None ''Hello'' empty_context)) ''text_generation''
       = Some (PDict [(''prompt'', PStr ''Hello'')])"
  using fallback_tools_with_parameters [of None "''Hello''" empty_context]
  by (simp add: classify_intent_def fallback_classification_def lower_def lower_char_def dict_get_def)

section \<open>Properties of response formatting\<close>












text \<open>
  Claim C10: when the only result is a completed \<open>text_generation\<close> result with a
  non-empty payload whose \<open>generated_text\<close> is the empty string, the formatted content
  is empty: no text block, no error block and, a result having completed, no fallback
  block.
\<close>

theorem format_response_empty_generated_text:
  assumes "status r = COMPLETED"
    and "tool_name r = ''text_generation''"
    and "result r = Some d" and "d \<noteq> []"
    and "dict_get d ''generated_text'' = Some (PStr [])"
  shows "format_response c [r] q = Inr []"
  using assms
  by (simp add: format_response_def format_completed_def py_get_def Let_def)

theorem format_response_empty_generated_text_witness:
  "format_response (fallback_classification ''Hello'') [empty_text_result] ''Hello'' = Inr []"
proof -
  have s: "status empty_text_result = COMPLETED"
    and n: "tool_name empty_text_result = ''text_generation''"
    and r: "result empty_text_result =
              Some [(''generated_text'', PStr []), (''model_used'', PStr ''gpt-4''),
                    (''tokens_used'', PInt 0), (''finish_reason'', PStr ''stop'')]"
    by (simp_all add: empty_text_result_def)
  have d: "[(''generated_text'', PStr []), (''model_used'', PStr ''gpt-4''),
            (''tokens_used'', PInt 0), (''finish_reason'', PStr ''stop'')] \<noteq> []"
    by simp
  have g: "dict_get [(''generated_text'', PStr []), (''model_used'', PStr ''gpt-4''),
                     (''tokens_used'', PInt 0), (''finish_reason'', PStr ''stop'')] ''generated_text''
             = Some (PStr [])"
    by (simp add: dict_get_def)
  show ?thesis
    by (rule format_response_empty_generated_text [OF s n r d g])
qed

section \<open>Properties of safe execution\<close>

text \<open>
  Claim C5: when \<open>validate_parameters\<close> returns false, \<open>_safe_execute\<close> returns a
  failed result with the non-empty error "Invalid parameters provided" and with the
  duration between its two clock readings; \<open>execute\<close> is not called: the trace is
  unchanged, and the outcome is the same whatever \<open>execute\<close> is.
\<close>

theorem safe_execute_rejects_invalid:
  assumes "validate_parameters tool ps = Inr False"
  shows "\<exists>r w'. safe_execute tool ps w = (Inr r, w')
      \<and> tool_name r = name tool
      \<and> status r = FAILED
      \<and> error r = Some ''Invalid parameters provided''
      \<and> (\<exists>msg. error r = Some msg \<and> msg \<noteq> [])
      \<and> execution_time r = Some (time_src w (Suc (time_idx w)) - time_src w (time_idx w))
      \<and> trace w' = trace w
      \<and> safe_execute (tool\<lparr>execute := other_execute\<rparr>) ps w = safe_execute tool ps w"
  using assms by (simp add: safe_execute_def time_time_def Let_def)

theorem safe_execute_rejects_invalid_witness:
  "safe_execute (TextGenerationTool (Some example_client)) (PDict []) example_world =
     (Inr \<lparr>tool_name = ''text_generation'', status = FAILED, result = None,
           error = Some ''Invalid parameters provided'', execution_time = Some 1\<rparr>,
      example_world\<lparr>time_idx := 2\<rparr>)"
proof -
  have v: "validate_parameters (TextGenerationTool (Some example_client)) (PDict []) = Inr False"
    by (simp add: TextGenerationTool_def text_validate_dict_def py_get_def dict_get_def)
  have n: "name (TextGenerationTool (Some example_client)) = ''text_generation''"
    by (simp add: TextGenerationTool_def)
  from safe_execute_rejects_invalid [OF v, of example_world]
  show ?thesis
    by (simp add: safe_execute_def v n time_time_def example_world_def Let_def)
qed

section \<open>Properties of batch execution\<close>

lemma execute_tool_no_callback_reg: "fst (snd (execute_tool tn ps None reg w)) = reg"
  by (simp add: execute_tool_def Let_def split: option.splits prod.splits)

lemma gather_Cons:
  "gather ((tn, ps) # tasks) reg w =
     (fst (execute_tool tn ps None reg w)
        # fst (gather tasks reg (snd (snd (execute_tool tn ps None reg w)))),
      snd (gather tasks reg (snd (snd (execute_tool tn ps None reg w)))))"
proof -
  obtain r reg1 w1 where e: "execute_tool tn ps None reg w = (r, reg1, w1)"
    by (cases "execute_tool tn ps None reg w") auto
  with execute_tool_no_callback_reg [of tn ps reg w] have "reg1 = reg" by simp
  with e show ?thesis
    by (cases "gather tasks reg w1") simp
qed

lemma gather_reg: "fst (snd (gather tasks reg w)) = reg"
proof (induction tasks arbitrary: w)
  case Nil
  then show ?case by simp
next
  case (Cons t tasks)
  then show ?case
    by (cases t) (simp add: gather_Cons del: gather.simps(2))
qed



lemma build_tasks_filter:
  "build_tasks reqs =
     map (\<lambda>request. (the (req_tool_name request), request_parameters request))
         (filter names_tool reqs)"
  by (induction reqs) (auto simp: names_tool_def request_parameters_def Let_def split: option.splits)

lemma build_tasks_length: "length (build_tasks reqs) \<le> length reqs"
  by (simp add: build_tasks_filter)





section \<open>Properties of the orchestrator\<close>

text \<open>
  Every active session has a history: this holds when the orchestrator is created, and
  \<open>process_query\<close> and \<open>clear_session\<close> keep it.
\<close>

lemma dict_in_dict_set: "dict_in k' (dict_set k v d) \<longleftrightarrow> k' = k \<or> dict_in k' d"
  by (simp add: dict_in_def dict_get_dict_set)

lemma dict_in_dict_del: "dict_in k' (dict_del k d) \<longleftrightarrow> k' \<noteq> k \<and> dict_in k' d"
  by (simp add: dict_in_def dict_get_dict_del)

lemma sessions_consistent_init: "sessions_consistent AgentOrchestrator_init"
  by (simp add: AgentOrchestrator_init_def sessions_consistent_def dict_in_def dict_get_def)

lemma init_session_consistent:
  "sessions_consistent orch \<Longrightarrow> sessions_consistent (fst (init_session sid orch w))"
  by (simp add: init_session_def sessions_consistent_def dict_in_dict_set split: prod.split)

lemma add_user_message_consistent:
  "sessions_consistent orch \<Longrightarrow> sessions_consistent (fst (snd (add_user_message sid query orch w)))"
  by (auto simp: add_user_message_def sessions_consistent_def dict_in_def dict_get_dict_set Let_def
        split: prod.split option.split)

lemma deliver_consistent:
  "sessions_consistent orch \<Longrightarrow>
   sessions_consistent (fst (snd (deliver cb st sid mid c tr rc orch w)))"
  by (simp add: deliver_def sessions_consistent_def dict_in_dict_set Let_def
        split: prod.split option.split)

lemma run_pipeline_consistent:
  assumes c: "sessions_consistent orch"
  shows "sessions_consistent (sys_orch (snd (run_pipeline client query cb st sid mid orch reg w)))"
proof -
  have d: "sessions_consistent orch6"
    if "deliver cb st sid mid cl tr rc orch w5 = (x, orch6, w6)" for cl tr rc w5 x orch6 w6
    using deliver_consistent [OF c, of cb st sid mid cl tr rc w5] that by simp
  show ?thesis
    unfolding run_pipeline_def Let_def
    by (auto simp: c split: prod.splits option.splits sum.splits dest: d)
qed

lemma process_query_try_consistent:
  assumes c: "sessions_consistent (sys_orch s)"
  shows "sessions_consistent (sys_orch (snd (process_query_try client query cb st sid mid s)))"
proof -
  obtain orch1 w1 where i: "init_session sid (sys_orch s) (sys_world s) = (orch1, w1)"
    by (cases "init_session sid (sys_orch s) (sys_world s)")
  with init_session_consistent [OF c, of sid "sys_world s"] have c1: "sessions_consistent orch1"
    by simp
  obtain r orch2 w2 where a: "add_user_message sid query orch1 w1 = (r, orch2, w2)"
    by (cases "add_user_message sid query orch1 w1")
  with add_user_message_consistent [OF c1, of sid query w1] have c2: "sessions_consistent orch2"
    by simp
  from run_pipeline_consistent [OF c2] c2 show ?thesis
    by (simp add: process_query_try_def i a split: sum.split)
qed

lemma process_query_consistent:
  assumes c: "sessions_consistent (sys_orch s)"
  shows "sessions_consistent (sys_orch (snd (process_query client query cb s)))"
proof -
  obtain start_time w0 where start: "time_time (sys_world s) = (start_time, w0)"
    by (cases "time_time (sys_world s)")
  obtain session_id w1 where sid: "resolve_session_id query w0 = (session_id, w1)"
    by (cases "resolve_session_id query w0")
  obtain mid w2 where mid: "uuid4 w1 = (mid, w2)"
    by (cases "uuid4 w1")
  obtain r s1 where t: "process_query_try client query cb start_time session_id mid (s\<lparr>sys_world := w2\<rparr>) = (r, s1)"
    by (cases "process_query_try client query cb start_time session_id mid (s\<lparr>sys_world := w2\<rparr>)")
  have "sessions_consistent (sys_orch (s\<lparr>sys_world := w2\<rparr>))"
    using c by simp
  from process_query_try_consistent [OF this, of client query cb start_time session_id mid]
  have "sessions_consistent (sys_orch s1)"
    by (simp add: t)
  then show ?thesis
    by (cases r) (simp_all add: process_query_def start sid mid t split: prod.split)
qed

lemma clear_session_consistent:
  "sessions_consistent orch \<Longrightarrow> sessions_consistent (snd (clear_session sid orch))"
  by (auto simp: clear_session_def sessions_consistent_def dict_in_dict_del Let_def)

lemma init_session_result:
  assumes "sessions_consistent orch"
  shows "\<exists>sess h. dict_get (active_sessions (fst (init_session sid orch w))) sid = Some sess
           \<and> dict_get (conversation_history (fst (init_session sid orch w))) sid = Some h"
  using assms
  by (auto simp: init_session_def sessions_consistent_def dict_in_def dict_get_dict_set
       split: prod.splits)

lemma add_user_message_result:
  assumes act: "dict_get (active_sessions orch) sid = Some sess"
    and hist: "dict_get (conversation_history orch) sid = Some h"
  shows "\<exists>um orch2 w2. add_user_message sid query orch w = (Inr um, orch2, w2)
           \<and> user_message_recorded query sid orch2"
proof -
  obtain uid w1 where u: "uuid4 w = (uid, w1)"
    by (cases "uuid4 w")
  obtain now w2 where t: "time_time w1 = (now, w2)"
    by (cases "time_time w1")
  define um where "um =
     \<lparr>cm_id = uid, cm_type = USER,
      cm_content = [\<lparr>mc_type = TEXT, mc_content = PStr (uq_message query), mc_metadata = None\<rparr>],
      cm_timestamp = now, cm_user_id = uq_user_id query,
      cm_session_id = Some sid, cm_tool_results = None\<rparr>"
  define orch2 where "orch2 =
     orch\<lparr>active_sessions :=
            dict_set sid (sess\<lparr>message_count := message_count sess + 1\<rparr>) (active_sessions orch),
          conversation_history := dict_set sid (h @ [um]) (conversation_history orch)\<rparr>"
  have eq: "add_user_message sid query orch w = (Inr um, orch2, w2)"
    by (simp add: add_user_message_def act hist u t um_def orch2_def Let_def)
  have "dict_get (conversation_history orch2) sid = Some (h @ [um])"
    by (simp add: orch2_def dict_get_dict_set)
  moreover have "um \<in> set (h @ [um])"
    by simp
  moreover have "cm_type um = USER"
    and "cm_content um = [\<lparr>mc_type = TEXT, mc_content = PStr (uq_message query), mc_metadata = None\<rparr>]"
    by (simp_all add: um_def)
  ultimately have "user_message_recorded query sid orch2"
    unfolding user_message_recorded_def by blast
  with eq show ?thesis by blast
qed

lemma deliver_recorded:
  assumes "user_message_recorded query sid orch"
  shows "user_message_recorded query sid
           (fst (snd (deliver cb st sid mid classification tool_results response_content orch w)))"
proof -
  from assms obtain h um where hist: "dict_get (conversation_history orch) sid = Some h"
    and um: "um \<in> set h" "cm_type um = USER"
      "cm_content um = [\<lparr>mc_type = TEXT, mc_content = PStr (uq_message query), mc_metadata = None\<rparr>]"
    unfolding user_message_recorded_def by blast
  obtain now w1 where t1: "time_time w = (now, w1)"
    by (cases "time_time w")
  obtain stamp w2 where t2: "time_time w1 = (stamp, w2)"
    by (cases "time_time w1")
  define am where "am =
     \<lparr>cm_id = mid, cm_type = ASSISTANT, cm_content = response_content,
      cm_timestamp = stamp, cm_user_id = None, cm_session_id = Some sid,
      cm_tool_results = Some tool_results\<rparr>"
  have eq: "fst (snd (deliver cb st sid mid classification tool_results response_content orch w)) =
      orch\<lparr>conversation_history := dict_set sid (h @ [am]) (conversation_history orch)\<rparr>"
    by (simp add: deliver_def t1 t2 hist am_def Let_def split: prod.split option.split)
  have "dict_get (conversation_history
           (orch\<lparr>conversation_history := dict_set sid (h @ [am]) (conversation_history orch)\<rparr>)) sid
          = Some (h @ [am])"
    by (simp add: dict_get_dict_set)
  moreover have "um \<in> set (h @ [am])"
    using um(1) by simp
  ultimately show ?thesis
    unfolding eq user_message_recorded_def using um(2,3) by blast
qed

lemma run_pipeline_recorded:
  assumes r: "user_message_recorded query sid orch"
  shows "user_message_recorded query sid
           (sys_orch (snd (run_pipeline client query cb st sid mid orch reg w)))"
proof -
  have d: "user_message_recorded query sid orch6"
    if "deliver cb st sid mid c tr rc orch w5 = (x, orch6, w6)" for c tr rc w5 x orch6 w6
    using deliver_recorded [OF r, of cb st mid c tr rc w5] that by simp
  show ?thesis
    unfolding run_pipeline_def Let_def
    by (auto simp: r split: prod.splits option.splits sum.splits dest: d)
qed

lemma process_query_try_recorded:
  assumes cons: "sessions_consistent (sys_orch s)"
  shows "user_message_recorded query sid
           (sys_orch (snd (process_query_try client query cb st sid mid s)))"
proof -
  obtain orch1 w1 where i: "init_session sid (sys_orch s) (sys_world s) = (orch1, w1)"
    by (cases "init_session sid (sys_orch s) (sys_world s)")
  with init_session_result [OF cons, of sid "sys_world s"] obtain sess h where
    "dict_get (active_sessions orch1) sid = Some sess"
    "dict_get (conversation_history orch1) sid = Some h"
    by auto
  from add_user_message_result [OF this, of query w1] obtain um orch2 w2 where
    a: "add_user_message sid query orch1 w1 = (Inr um, orch2, w2)"
    and r: "user_message_recorded query sid orch2"
    by blast
  from run_pipeline_recorded [OF r] show ?thesis
    by (simp add: process_query_try_def i a)
qed

lemma process_query_try_first_callback:
  assumes cons: "sessions_consistent (sys_orch s)"
    and raises: "cb ''Analyzing your request...'' 0.1 = Some e"
  shows "fst (process_query_try client query (Some cb) st sid mid s) = Inl e"
proof -
  obtain orch1 w1 where i: "init_session sid (sys_orch s) (sys_world s) = (orch1, w1)"
    by (cases "init_session sid (sys_orch s) (sys_world s)")
  with init_session_result [OF cons, of sid "sys_world s"] obtain sess h where
    "dict_get (active_sessions orch1) sid = Some sess"
    "dict_get (conversation_history orch1) sid = Some h"
    by auto
  from add_user_message_result [OF this, of query w1] obtain um orch2 w2 where
    a: "add_user_message sid query orch1 w1 = (Inr um, orch2, w2)"
    by blast
  show ?thesis
    using raises by (simp add: process_query_try_def run_pipeline_def i a call_callback_def)
qed



lemma example_consistent: "sessions_consistent (sys_orch example_system)"
  by (simp add: example_system_def AgentOrchestrator_init_def sessions_consistent_def dict_in_def dict_get_def)

lemma failing_callback_raises:
  "failing_callback ''Analyzing your request...'' 0.1 = Some (Exn ''ConnectionError'' ''connection closed'')"
  "failing_callback
     (''Starting '' @ name (set_progress_callback failing_callback (TextGenerationTool (Some example_client))) @ ''...'') 0
       = Some (Exn ''ConnectionError'' ''connection closed'')"
  "failing_callback
     (name (set_progress_callback failing_callback (TextGenerationTool (Some example_client)))
        @ '' failed: '' @ exn_str (Exn ''ConnectionError'' ''connection closed'')) 0
       = Some (Exn ''ConnectionError'' ''connection closed'')"
  by (simp_all add: failing_callback_def)


text \<open>
  Claim C4: when an exception escapes the \<open>try\<close> block of \<open>process_query\<close>, the
  response is the error response: its content is the single error block with the
  exception's message and, in the metadata, its type name; the elapsed time from the start
  to the point of failure is reported; the orchestrator's state is the one at the point
  of failure (nothing is rolled back), and the user message is in the session's history.
  The sessions are those the orchestrator sets up: each active session has a history.
\<close>

theorem process_query_error_response:
  assumes cons: "sessions_consistent (sys_orch s)"
    and start: "time_time (sys_world s) = (start_time, w0)"
    and sid: "resolve_session_id query w0 = (session_id, w1)"
    and mid: "uuid4 w1 = (mid, w2)"
    and escapes: "process_query_try client query cb start_time session_id mid (s\<lparr>sys_world := w2\<rparr>)
                    = (Inl e, s1)"
  shows "ar_content (fst (process_query client query cb s)) =
           [\<lparr>mc_type = ERROR,
             mc_content = PStr (''I encountered an error processing your request: '' @ exn_str e),
             mc_metadata = Some [(''error_type'', PStr (exn_type e))]\<rparr>]
       \<and> response_type (fst (process_query client query cb s)) = ERROR_MESSAGE
       \<and> processing_time (fst (process_query client query cb s)) =
           Some (time_src (sys_world s1) (time_idx (sys_world s1)) - start_time)
       \<and> sys_orch (snd (process_query client query cb s)) = sys_orch s1
       \<and> user_message_recorded query session_id (sys_orch (snd (process_query client query cb s)))"
proof -
  have pq: "process_query client query cb s =
      (error_response mid session_id
         (time_src (sys_world s1) (time_idx (sys_world s1)) - start_time) e,
       s1\<lparr>sys_world := snd (time_time (sys_world s1))\<rparr>)"
    by (simp add: process_query_def start sid mid escapes) (simp add: time_time_def)
  have "sessions_consistent (sys_orch (s\<lparr>sys_world := w2\<rparr>))"
    using cons by simp
  from process_query_try_recorded [OF this, of query session_id client cb start_time mid]
  have "user_message_recorded query session_id (sys_orch s1)"
    by (simp add: escapes)
  then show ?thesis
    by (simp add: pq error_response_def)
qed

theorem process_query_error_response_witness:
  "response_type (fst (process_query None hello_query (Some failing_callback) example_system)) = ERROR_MESSAGE
   \<and> ar_content (fst (process_query None hello_query (Some failing_callback) example_system)) =
       [\<lparr>mc_type = ERROR,
         mc_content = PStr ''I encountered an error processing your request: connection closed'',
         mc_metadata = Some [(''error_type'', PStr ''ConnectionError'')]\<rparr>]
   \<and> processing_time (fst (process_query None hello_query (Some failing_callback) example_system)) \<noteq> None
   \<and> user_message_recorded hello_query ''s1''
        (sys_orch (snd (process_query None hello_query (Some failing_callback) example_system)))"
proof -
  let ?w0 = "example_world\<lparr>time_idx := 1\<rparr>"
  let ?w2 = "example_world\<lparr>time_idx := 1, uuid_idx := 1\<rparr>"
  have start: "time_time (sys_world example_system) = (0, ?w0)"
    by (simp add: example_system_def example_world_def time_time_def)
  have sid: "resolve_session_id hello_query ?w0 = (''s1'', ?w0)"
    by (simp add: resolve_session_id_def hello_query_def)
  have mid: "uuid4 ?w0 = (''u'', ?w2)"
    by (simp add: uuid4_def example_world_def)
  have "sessions_consistent (sys_orch (example_system\<lparr>sys_world := ?w2\<rparr>))"
    using example_consistent by simp
  from process_query_try_first_callback
         [where s = "example_system\<lparr>sys_world := ?w2\<rparr>" and cb = failing_callback
            and e = "Exn ''ConnectionError'' ''connection closed''"
            and client = None and query = hello_query and st = 0 and sid = "''s1''" and mid = "''u''",
          OF this failing_callback_raises(1)]
  obtain s1 where escapes:
    "process_query_try None hello_query (Some failing_callback) 0 ''s1'' ''u''
       (example_system\<lparr>sys_world := ?w2\<rparr>) = (Inl (Exn ''ConnectionError'' ''connection closed''), s1)"
    by (cases "process_query_try None hello_query (Some failing_callback) 0 ''s1'' ''u''
                 (example_system\<lparr>sys_world := ?w2\<rparr>)") simp
  from process_query_error_response [OF example_consistent start sid mid escapes]
  show ?thesis by auto
qed




end
